theory Spec2Isabelle
  imports Complex_Main "HOL-Library.Sublist"
begin

section \<open>Data model of \<^verbatim>\<open>source/ts/index.ts\<close>\<close>

text \<open>
  The tool synchronises the image sets of an Xcode asset catalogue with a directory of
  exported images. This theory embeds \<^verbatim>\<open>findImagePath\<close> and \<^verbatim>\<open>syncImageSet\<close>
  together with the part of the Node.js run time they touch.

  Strings are lists of characters; a character outside ASCII stands as the bytes of its
  UTF-8 encoding, none of which is a dot, a separator or a quote. A property that may be
  \<^verbatim>\<open>undefined\<close> is an \<open>option\<close>; JavaScript's truthiness of a \<^verbatim>\<open>string | undefined\<close>
  is \<open>truthy\<close>.
\<close>

text \<open>One element of \<^verbatim>\<open>ImageSetImage.appearances\<close>: \<^verbatim>\<open>{ appearance: string, value: string }\<close>.\<close>

record Appearance =
  appearance :: string
  val :: string

text \<open>
  \<^verbatim>\<open>interface ImageSetImage\<close>. The interface declares \<^verbatim>\<open>filename: string\<close>, but the code
  tests it against \<^verbatim>\<open>undefined\<close> ("Image filename will be undefined if no image is
  assigned"), so the field is optional here. \<^verbatim>\<open>appearances\<close> is optional in the
  interface; being read from JSON it is a list of any length.
\<close>

record ImageSetImage =
  idiom :: string
  filename :: "string option"
  scale :: string
  appearances :: "Appearance list option"

text \<open>\<^verbatim>\<open>interface ImageSetContents\<close>, with its \<^verbatim>\<open>info: { version: number, author: string }\<close>.\<close>

record ImageSetInfo =
  version :: int
  author :: string

record ImageSetContents =
  images :: "ImageSetImage list"
  info :: ImageSetInfo

text \<open>\<^verbatim>\<open>class ImageSetSyncResult\<close>; \<open>new_ImageSetSyncResult\<close> is its constructor.\<close>

record ImageSetSyncResult =
  unassigned :: bool
  updated :: "string list"
  missing :: "string list"
  skipped :: "string list"

definition new_ImageSetSyncResult :: ImageSetSyncResult where
  "new_ImageSetSyncResult = \<lparr>unassigned = False, updated = [], missing = [], skipped = []\<rparr>"

text \<open>The exceptions the modelled code can raise.\<close>

datatype error =
  TypeError      \<comment> \<open>reading a property of \<^verbatim>\<open>undefined\<close>\<close>
  | SyntaxError  \<comment> \<open>\<^verbatim>\<open>JSON.parse\<close> on text that is not JSON\<close>
  | ENOENT       \<comment> \<open>a file that is read or copied does not exist\<close>
  | SameFile     \<comment> \<open>fs-extra: "Source and destination must not be the same."\<close>

text \<open>A value of type \<^verbatim>\<open>string | undefined\<close> is truthy when it is a non-empty string.\<close>

definition truthy :: "string option \<Rightarrow> bool" where
  "truthy v = (case v of None \<Rightarrow> False | Some s \<Rightarrow> s \<noteq> [])"

section \<open>The run time: strings, paths, JSON, the file system\<close>

subsection \<open>String methods\<close>

text \<open>\<^verbatim>\<open>s.replace(/\./ig, "-")\<close>: every dot becomes a hyphen.\<close>

definition replace_dots :: "string \<Rightarrow> string" where
  "replace_dots s = map (\<lambda>c. if c = CHR ''.'' then CHR ''-'' else c) s"

text \<open>
  \<^verbatim>\<open>s.replace(pat, rep)\<close> for a pattern without the \<^verbatim>\<open>g\<close> flag that matches the literal
  text \<open>pat\<close>: the leftmost occurrence is replaced, the rest of the string is kept.
\<close>

fun replace_first :: "string \<Rightarrow> string \<Rightarrow> string \<Rightarrow> string" where
  "replace_first pat rep [] = (if pat = [] then rep else [])"
| "replace_first pat rep (c # cs) =
     (if prefix pat (c # cs) then rep @ drop (length pat) (c # cs)
      else c # replace_first pat rep cs)"

text \<open>The two literals of \<^verbatim>\<open>.replace(/": /, `" : `)\<close>.\<close>

definition colon_delimiter :: string where
  "colon_delimiter = [CHR 0x22, CHR '':'', CHR '' '']"

definition padded_delimiter :: string where
  "padded_delimiter = [CHR 0x22, CHR '' '', CHR '':'', CHR '' '']"

subsection \<open>The modules \<^verbatim>\<open>path\<close> and \<^verbatim>\<open>JSON\<close>, and \<^verbatim>\<open>toLowerCase\<close>\<close>

text \<open>
  The functions of Node's \<^verbatim>\<open>path\<close> module and of \<^verbatim>\<open>JSON\<close> that the code calls, and the
  string method \<^verbatim>\<open>toLowerCase\<close>, are not part of the repository. They are parameters of
  the model, collected in one record, so that every theorem holds for whatever these
  functions compute.
  \<^item> \<open>String_toLowerCase s\<close> is \<^verbatim>\<open>s.toLowerCase()\<close>, which lower-cases every cased
    character of the string, not the ASCII letters only;
  \<^item> \<open>path_join a b\<close> is \<^verbatim>\<open>path.join(a, b)\<close>;
  \<^item> \<open>path_basename p ext\<close> is \<^verbatim>\<open>path.basename(p, ext)\<close>, and \<^verbatim>\<open>path.basename(p)\<close> when
    \<open>ext\<close> is empty (Node ignores an empty suffix);
  \<^item> \<open>path_extname p\<close> is \<^verbatim>\<open>path.extname(p)\<close>;
  \<^item> \<open>JSON_parse s\<close> is \<^verbatim>\<open>JSON.parse(s) as ImageSetContents\<close>, \<open>None\<close> when it throws;
  \<^item> \<open>JSON_stringify c n\<close> is \<^verbatim>\<open>JSON.stringify(c, null, n)\<close>.
\<close>

record node =
  String_toLowerCase :: "string \<Rightarrow> string"
  path_join :: "string \<Rightarrow> string \<Rightarrow> string"
  path_basename :: "string \<Rightarrow> string \<Rightarrow> string"
  path_extname :: "string \<Rightarrow> string"
  JSON_parse :: "string \<Rightarrow> ImageSetContents option"
  JSON_stringify :: "ImageSetContents \<Rightarrow> nat \<Rightarrow> string"

subsection \<open>The file system\<close>

text \<open>
  A file has its bytes and its modification time in milliseconds (\<^verbatim>\<open>Stats.mtimeMs\<close>, a
  number with a fractional part). The file system maps a path to the file it names.
  The state also records every mutating call, oldest first, and the time a write stamps.
\<close>

record fs_file =
  file_content :: string
  file_mtimeMs :: rat

datatype fs_call =
  RemoveSync string
  | CopySync string string
  | WriteFileSync string string

record world =
  files :: "string \<Rightarrow> fs_file option"
  calls :: "fs_call list"
  clock :: rat

text \<open>\<^verbatim>\<open>Math.round(x)\<close>: the nearest integer, a tie going up.\<close>

definition Math_round :: "rat \<Rightarrow> int" where
  "Math_round x = \<lfloor>x + 1 / 2\<rfloor>"

text \<open>The two fields of \<^verbatim>\<open>fs.Stats\<close> that the code reads.\<close>

record Stats =
  stat_size :: nat
  stat_mtimeMs :: rat

definition existsSync :: "world \<Rightarrow> string \<Rightarrow> bool" where
  "existsSync w p = (files w p \<noteq> None)"

text \<open>
  \<^verbatim>\<open>fs.statSync(p)\<close>. The code calls it only behind \<^verbatim>\<open>fs.existsSync(p) &&\<close>; \<open>None\<close> is
  the value when there is no such file.
\<close>

definition statSync :: "world \<Rightarrow> string \<Rightarrow> Stats option" where
  "statSync w p =
     (case files w p of
        None \<Rightarrow> None
      | Some f \<Rightarrow> Some \<lparr>stat_size = length (file_content f), stat_mtimeMs = file_mtimeMs f\<rparr>)"

text \<open>
  \<^verbatim>\<open>fs.removeSync(p)\<close>: the file \<open>p\<close> is gone afterwards and, \<open>p\<close> being a directory, so is
  every file under it; removing nothing is not an error.
\<close>

definition removeSync :: "world \<Rightarrow> string \<Rightarrow> world" where
  "removeSync w p =
     w\<lparr>files := (\<lambda>q. if q = p \<or> prefix (p @ ''/'') q then None else files w q),
       calls := calls w @ [RemoveSync p]\<rparr>"

text \<open>
  \<^verbatim>\<open>fs.copySync(src, dest, {preserveTimestamps: true})\<close>: the destination gets the bytes
  of the source, replacing what was there. Its modification time is set from the \<^verbatim>\<open>Date\<close>
  of the source's time, which is that time rounded to a whole number of milliseconds, as
  far as the file system stores it: the copy of a file of time 2000.4 has the time 2000.
  \<open>copied f\<close> is the file that a copy of \<open>f\<close> is. The call throws when there is no source file, and when source and
  destination are the same path.
\<close>

definition copied :: "fs_file \<Rightarrow> fs_file" where
  "copied f = \<lparr>file_content = file_content f,
                file_mtimeMs = of_int (Math_round (file_mtimeMs f))\<rparr>"

definition copySync :: "world \<Rightarrow> string \<Rightarrow> string \<Rightarrow> error + world" where
  "copySync w src dest =
     (case files w src of
        None \<Rightarrow> Inl ENOENT
      | Some f \<Rightarrow>
          if src = dest then Inl SameFile
          else Inr (w\<lparr>files := (files w)(dest \<mapsto> copied f),
                      calls := calls w @ [CopySync src dest]\<rparr>))"

definition readFileSync :: "world \<Rightarrow> string \<Rightarrow> error + string" where
  "readFileSync w p = (case files w p of None \<Rightarrow> Inl ENOENT | Some f \<Rightarrow> Inr (file_content f))"

definition writeFileSync :: "world \<Rightarrow> string \<Rightarrow> string \<Rightarrow> world" where
  "writeFileSync w p s =
     w\<lparr>files := (files w)(p \<mapsto> \<lparr>file_content = s, file_mtimeMs = clock w\<rparr>),
       calls := calls w @ [WriteFileSync p s]\<rparr>"

section \<open>\<^verbatim>\<open>findImagePath\<close>\<close>

text \<open>
  The three local constants of \<^verbatim>\<open>findImagePath\<close> (\<open>app\<close>, \<open>sc\<close> and \<open>base\<close> below):
  \<^verbatim>\<open>const appearance = image.appearances == undefined ? "" : `-${image.appearances[0].value}`;\<close>
  \<^verbatim>\<open>const scale = image.scale == "1x" ? "" : `@${image.scale}`;\<close>
  \<^verbatim>\<open>let filename = `${path.basename(imageSetPath, path.extname(imageSetPath)).replace(/\./ig, "-").toLowerCase()}`;\<close>
  Element 0 of an empty array is \<^verbatim>\<open>undefined\<close>, and reading \<^verbatim>\<open>.value\<close> of it throws.
\<close>

definition appearance_suffix :: "ImageSetImage \<Rightarrow> error + string" where
  "appearance_suffix img =
     (case appearances img of
        None \<Rightarrow> Inr []
      | Some [] \<Rightarrow> Inl TypeError
      | Some (a # _) \<Rightarrow> Inr (''-'' @ val a))"

definition scale_suffix :: "ImageSetImage \<Rightarrow> string" where
  "scale_suffix img = (if scale img = ''1x'' then [] else ''@'' @ scale img)"

definition base_filename :: "node \<Rightarrow> string \<Rightarrow> string" where
  "base_filename N imageSetPath =
     String_toLowerCase N
       (replace_dots (path_basename N imageSetPath (path_extname N imageSetPath)))"

text \<open>
  \<^verbatim>\<open>function findImagePath(imageSetPath, imageSourcePath, img): string | undefined\<close>,
  reading the file system \<open>w\<close>.
\<close>

definition findImagePath ::
  "node \<Rightarrow> world \<Rightarrow> string \<Rightarrow> string \<Rightarrow> ImageSetImage \<Rightarrow> error + string option" where
  "findImagePath N w imageSetPath imageSourcePath img =
     (if truthy (filename img)
         \<and> existsSync w (path_join N imageSourcePath (the (filename img)))
      then Inr (Some (path_join N imageSourcePath (the (filename img))))
      else
        case appearance_suffix img of
          Inl e \<Rightarrow> Inl e
        | Inr app \<Rightarrow>
            let sc = scale_suffix img;
                base = base_filename N imageSetPath;
                explicit = path_join N imageSourcePath (base @ app @ sc @ ''.png'');
                light = path_join N imageSourcePath (base @ ''-light'' @ sc @ ''.png'')
            in if existsSync w explicit then Inr (Some explicit)
               else if existsSync w light then Inr (Some light)
               else Inr None)"

section \<open>\<^verbatim>\<open>syncImageSet\<close>\<close>

text \<open>
  The state that the callback of \<^verbatim>\<open>contents.images.forEach\<close> works on: the file system,
  \<^verbatim>\<open>result\<close> and \<^verbatim>\<open>needsContentsUpdate\<close>.
\<close>

type_synonym sync_state = "world \<times> ImageSetSyncResult \<times> bool"

text \<open>
  The last two statements of the callback, reached from two branches:
  \<^verbatim>\<open>fs.copySync(newImagePath, path.join(imageSetPath, path.basename(newImagePath)), {preserveTimestamps: true});\<close>
  \<^verbatim>\<open>result.updated.push(image.filename);\<close>
\<close>

definition copy_and_push ::
  "node \<Rightarrow> string \<Rightarrow> string \<Rightarrow> sync_state \<Rightarrow> ImageSetImage
     \<Rightarrow> error + (sync_state \<times> ImageSetImage)" where
  "copy_and_push N imageSetPath newImagePath st img =
     (case st of (w, result, needsContentsUpdate) \<Rightarrow>
        case copySync w newImagePath
               (path_join N imageSetPath (path_basename N newImagePath [])) of
          Inl e \<Rightarrow> Inl e
        | Inr w' \<Rightarrow>
            Inr ((w', result\<lparr>updated := updated result @ [the (filename img)]\<rparr>,
                  needsContentsUpdate), img))"

text \<open>
  The constants of the callback of \<^verbatim>\<open>contents.images.forEach((image) => { ... })\<close>:
  \<^verbatim>\<open>const oldImagePath = image.filename && path.join(imageSetPath, image.filename);\<close>
  \<^verbatim>\<open>const oldStat = oldImagePath && fs.existsSync(oldImagePath) && fs.statSync(oldImagePath);\<close>
  \<^verbatim>\<open>const newStat = newImagePath && fs.existsSync(newImagePath) && fs.statSync(newImagePath);\<close>
  \<open>a && b\<close> is \<open>a\<close> when \<open>a\<close> is falsy. \<open>stat_of\<close> is \<open>None\<close> where the source's value is
  falsy.
\<close>

definition oldImagePath_of :: "node \<Rightarrow> string \<Rightarrow> ImageSetImage \<Rightarrow> string option" where
  "oldImagePath_of N imageSetPath img =
     (if truthy (filename img)
      then Some (path_join N imageSetPath (the (filename img)))
      else filename img)"

definition stat_of :: "world \<Rightarrow> string option \<Rightarrow> Stats option" where
  "stat_of w p = (if truthy p \<and> existsSync w (the p) then statSync w (the p) else None)"

text \<open>
  The test of the \<^verbatim>\<open>else if\<close>:
  \<^verbatim>\<open>oldStat && newStat && newStat.size === oldStat.size && Math.round(newStat.mtimeMs) === Math.round(oldStat.mtimeMs)\<close>
\<close>

definition same_stat :: "Stats option \<Rightarrow> Stats option \<Rightarrow> bool" where
  "same_stat oldStat newStat =
     (oldStat \<noteq> None \<and> newStat \<noteq> None
      \<and> stat_size (the newStat) = stat_size (the oldStat)
      \<and> Math_round (stat_mtimeMs (the newStat)) = Math_round (stat_mtimeMs (the oldStat)))"

text \<open>
  The callback itself. It returns the new state and the image, whose \<^verbatim>\<open>filename\<close> it may
  have assigned.
\<close>

definition syncImage ::
  "node \<Rightarrow> string \<Rightarrow> string \<Rightarrow> sync_state \<Rightarrow> ImageSetImage
     \<Rightarrow> error + (sync_state \<times> ImageSetImage)" where
  "syncImage N imageSetPath imageSourcePath st img =
     (case st of (w, result, needsContentsUpdate) \<Rightarrow>
        let oldImagePath = oldImagePath_of N imageSetPath img
        in case findImagePath N w imageSetPath imageSourcePath img of
             Inl e \<Rightarrow> Inl e
           | Inr newImagePath \<Rightarrow>
               let oldStat = stat_of w oldImagePath;
                   newStat = stat_of w newImagePath
               in if \<not> truthy newImagePath then
                    (if filename img = None
                     then Inr ((w, result\<lparr>unassigned := True\<rparr>, needsContentsUpdate), img)
                     else Inr ((w, result\<lparr>missing := missing result @ [the (filename img)]\<rparr>,
                                needsContentsUpdate), img))
                  else if \<not> truthy oldImagePath
                          \<or> path_basename N (the oldImagePath) []
                              \<noteq> path_basename N (the newImagePath) [] then
                    copy_and_push N imageSetPath (the newImagePath)
                      ((if truthy oldImagePath then removeSync w (the oldImagePath) else w),
                       result, True)
                      (img\<lparr>filename := Some (path_basename N (the newImagePath) [])\<rparr>)
                  else if same_stat oldStat newStat then
                    Inr ((w, result\<lparr>skipped := skipped result @ [the (filename img)]\<rparr>,
                          needsContentsUpdate), img)
                  else copy_and_push N imageSetPath (the newImagePath)
                         (w, result, needsContentsUpdate) img)"

text \<open>
  \<^verbatim>\<open>contents.images.forEach\<close>: the callback on every image in turn; an exception ends the
  loop. The images come back in their order, with the file names the callback assigned.
\<close>

fun forEach_image ::
  "node \<Rightarrow> string \<Rightarrow> string \<Rightarrow> sync_state \<Rightarrow> ImageSetImage list
     \<Rightarrow> error + (sync_state \<times> ImageSetImage list)" where
  "forEach_image N imageSetPath imageSourcePath st [] = Inr (st, [])"
| "forEach_image N imageSetPath imageSourcePath st (img # imgs) =
     (case syncImage N imageSetPath imageSourcePath st img of
        Inl e \<Rightarrow> Inl e
      | Inr (st', img') \<Rightarrow>
          (case forEach_image N imageSetPath imageSourcePath st' imgs of
             Inl e \<Rightarrow> Inl e
           | Inr (st'', imgs') \<Rightarrow> Inr (st'', img' # imgs')))"

text \<open>
  \<^verbatim>\<open>function syncImageSet(imageSetPath, imageSourcePath): ImageSetSyncResult\<close>, returning
  the file system it leaves beside its result.
\<close>

definition syncImageSet ::
  "node \<Rightarrow> world \<Rightarrow> string \<Rightarrow> string \<Rightarrow> error + (world \<times> ImageSetSyncResult)" where
  "syncImageSet N w imageSetPath imageSourcePath =
     (let contentsPath = path_join N imageSetPath ''Contents.json''
      in case readFileSync w contentsPath of
           Inl e \<Rightarrow> Inl e
         | Inr text \<Rightarrow>
             (case JSON_parse N text of
                None \<Rightarrow> Inl SyntaxError
              | Some contents \<Rightarrow>
                  (case forEach_image N imageSetPath imageSourcePath
                          (w, new_ImageSetSyncResult, False) (images contents) of
                     Inl e \<Rightarrow> Inl e
                   | Inr ((w', result, needsContentsUpdate), imgs') \<Rightarrow>
                       Inr (if needsContentsUpdate
                            then writeFileSync w' contentsPath
                                   (replace_first colon_delimiter padded_delimiter
                                      (JSON_stringify N (contents\<lparr>images := imgs'\<rparr>) 2))
                            else w',
                            result))))"


section \<open>File names, directories and the laws of the run time\<close>

text \<open>
  A plain file name names a file of the directory it is joined to: it is not empty, not
  \<^verbatim>\<open>.\<close> or \<^verbatim>\<open>..\<close>, and has no separator.
\<close>

definition plain :: "string \<Rightarrow> bool" where
  "plain n = (n \<noteq> [] \<and> n \<noteq> ''.'' \<and> n \<noteq> ''..'' \<and> CHR ''/'' \<notin> set n)"

text \<open>
  What the proofs below ask of \<^verbatim>\<open>path.join\<close> and \<^verbatim>\<open>path.basename\<close>, for a directory
  \<open>dir\<close>: joining a plain file name to it gives a path that is not the empty string and
  whose base name is that file name.
\<close>

definition plain_name_law :: "node \<Rightarrow> string \<Rightarrow> bool" where
  "plain_name_law N dir =
     (\<forall>n. plain n \<longrightarrow> path_join N dir n \<noteq> [] \<and> path_basename N (path_join N dir n) [] = n)"



text \<open>Every path of the file system names a file by a plain base name.\<close>

definition regular_files :: "node \<Rightarrow> world \<Rightarrow> bool" where
  "regular_files N w = (\<forall>p. files w p \<noteq> None \<longrightarrow> plain (path_basename N p []))"







section \<open>Examples\<close>

text \<open>
  The examples instantiate the parameters. \<open>flat_join\<close>, \<open>flat_basename\<close> and
  \<open>flat_extname\<close> are what Node's \<^verbatim>\<open>path.join\<close>, \<^verbatim>\<open>path.basename\<close> and \<^verbatim>\<open>path.extname\<close>
  compute on POSIX for the paths of the examples: a directory path that has no \<^verbatim>\<open>.\<close> or
  \<^verbatim>\<open>..\<close> segment and no trailing separator, joined with a relative path of the same kind.
\<close>

definition last_segment :: "string \<Rightarrow> string" where
  "last_segment p = rev (takeWhile (\<lambda>c. c \<noteq> CHR ''/'') (rev p))"

definition flat_join :: "string \<Rightarrow> string \<Rightarrow> string" where
  "flat_join dir n = dir @ ''/'' @ n"

definition flat_basename :: "string \<Rightarrow> string \<Rightarrow> string" where
  "flat_basename p ext =
     (let b = last_segment p
      in if ext \<noteq> [] \<and> suffix ext b \<and> ext \<noteq> b then take (length b - length ext) b else b)"

definition flat_extname :: "string \<Rightarrow> string" where
  "flat_extname p =
     (let b = last_segment p; e = rev (takeWhile (\<lambda>c. c \<noteq> CHR ''.'') (rev b))
      in if CHR ''.'' \<notin> set b \<or> length e + 1 = length b \<or> b = ''..'' then [] else ''.'' @ e)"

text \<open>
  \<^verbatim>\<open>toLowerCase\<close> on a text of ASCII characters, which all texts of the examples are: the
  letters \<^verbatim>\<open>A\<close> to \<^verbatim>\<open>Z\<close> are lower-cased.
\<close>

definition ascii_toLowerCase :: "string \<Rightarrow> string" where
  "ascii_toLowerCase s =
     map (\<lambda>c. if 65 \<le> (of_char c :: nat) \<and> (of_char c :: nat) \<le> 90
              then char_of ((of_char c :: nat) + 32) else c) s"

definition png :: "string \<Rightarrow> rat \<Rightarrow> fs_file" where
  "png bytes t = \<lparr>file_content = bytes, file_mtimeMs = t\<rparr>"

subsection \<open>An app icon set with three images\<close>

text \<open>
  The image set \<^verbatim>\<open>Assets.xcassets/AppIcon.appiconset\<close> and the source directory
  \<^verbatim>\<open>Export\<close>. The first image has no file yet, the second has one that the export
  replaces, the third records a file that the export does not have.
\<close>

definition icon_1x :: ImageSetImage where
  "icon_1x = \<lparr>idiom = ''universal'', filename = None, scale = ''1x'', appearances = None\<rparr>"

definition icon_2x :: ImageSetImage where
  "icon_2x = \<lparr>idiom = ''universal'', filename = Some ''appicon@2x.png'', scale = ''2x'',
     appearances = None\<rparr>"

definition icon_3x :: ImageSetImage where
  "icon_3x = \<lparr>idiom = ''universal'', filename = Some ''gone.png'', scale = ''3x'',
     appearances = None\<rparr>"

definition contents_before :: ImageSetContents where
  "contents_before = \<lparr>images = [icon_1x, icon_2x, icon_3x],
     info = \<lparr>version = 1, author = ''xcode''\<rparr>\<rparr>"

definition contents_after :: ImageSetContents where
  "contents_after = \<lparr>images = [icon_1x\<lparr>filename := Some ''appicon.png''\<rparr>, icon_2x, icon_3x],
     info = \<lparr>version = 1, author = ''xcode''\<rparr>\<rparr>"

text \<open>The manifest as Xcode wrote it: \<^verbatim>\<open>JSON.parse\<close> of it is \<open>contents_before\<close>.\<close>

definition manifest_before :: string where
  \<open>manifest_before = ''{
  "images" : [
    {
      "idiom" : "universal",
      "scale" : "1x"
    },
    {
      "filename" : "appicon@2x.png",
      "idiom" : "universal",
      "scale" : "2x"
    },
    {
      "filename" : "gone.png",
      "idiom" : "universal",
      "scale" : "3x"
    }
  ],
  "info" : {
    "author" : "xcode",
    "version" : 1
  }
}''\<close>

text \<open>
  \<^verbatim>\<open>JSON.stringify(contents, null, 2)\<close> once the first image has its file name: the keys
  keep the order in which the object got them, so the assigned \<^verbatim>\<open>filename\<close> is last.
\<close>

definition manifest_serial :: string where
  \<open>manifest_serial = ''{
  "images": [
    {
      "idiom": "universal",
      "scale": "1x",
      "filename": "appicon.png"
    },
    {
      "filename": "appicon@2x.png",
      "idiom": "universal",
      "scale": "2x"
    },
    {
      "filename": "gone.png",
      "idiom": "universal",
      "scale": "3x"
    }
  ],
  "info": {
    "author": "xcode",
    "version": 1
  }
}''\<close>

text \<open>The same text with a space before the first colon: the manifest as it is written.\<close>

definition manifest_after :: string where
  \<open>manifest_after = ''{
  "images" : [
    {
      "idiom": "universal",
      "scale": "1x",
      "filename": "appicon.png"
    },
    {
      "filename": "appicon@2x.png",
      "idiom": "universal",
      "scale": "2x"
    },
    {
      "filename": "gone.png",
      "idiom": "universal",
      "scale": "3x"
    }
  ],
  "info": {
    "author": "xcode",
    "version": 1
  }
}''\<close>

subsection \<open>An image set whose manifest names a file in a subdirectory\<close>

text \<open>
  The image set \<^verbatim>\<open>Assets.xcassets/A.imageset\<close> records \<^verbatim>\<open>sub/a.png\<close>. The source directory
  is flat and has \<^verbatim>\<open>a.png\<close>, the name derived for the image.
\<close>

definition nested_image :: ImageSetImage where
  "nested_image = \<lparr>idiom = ''universal'', filename = Some ''sub/a.png'', scale = ''1x'',
     appearances = None\<rparr>"

definition nested_contents :: ImageSetContents where
  "nested_contents = \<lparr>images = [nested_image], info = \<lparr>version = 1, author = ''xcode''\<rparr>\<rparr>"

definition nested_manifest :: string where
  \<open>nested_manifest = ''{
  "images" : [
    {
      "filename" : "sub/a.png",
      "idiom" : "universal",
      "scale" : "1x"
    }
  ],
  "info" : {
    "author" : "xcode",
    "version" : 1
  }
}''\<close>


subsection \<open>An image set whose derived file name has a directory part\<close>

text \<open>
  The image set \<^verbatim>\<open>Assets.xcassets/S.imageset\<close> has one image without a file, whose first
  appearance has the value \<^verbatim>\<open>x/y\<close>: the derived name is \<^verbatim>\<open>s-x/y.png\<close>. The source
  directory has that file and another file \<^verbatim>\<open>y.png\<close>.
\<close>

definition slash_image :: ImageSetImage where
  "slash_image = \<lparr>idiom = ''universal'', filename = None, scale = ''1x'',
     appearances = Some [\<lparr>appearance = ''luminosity'', val = ''x/y''\<rparr>]\<rparr>"

definition slash_contents :: ImageSetContents where
  "slash_contents = \<lparr>images = [slash_image], info = \<lparr>version = 1, author = ''xcode''\<rparr>\<rparr>"

definition slash_contents_after :: ImageSetContents where
  "slash_contents_after = \<lparr>images = [slash_image\<lparr>filename := Some ''y.png''\<rparr>],
     info = \<lparr>version = 1, author = ''xcode''\<rparr>\<rparr>"

definition slash_manifest :: string where
  \<open>slash_manifest = ''{
  "images" : [
    {
      "appearances" : [
        {
          "appearance" : "luminosity",
          "value" : "x/y"
        }
      ],
      "idiom" : "universal",
      "scale" : "1x"
    }
  ],
  "info" : {
    "author" : "xcode",
    "version" : 1
  }
}''\<close>

definition slash_serial :: string where
  \<open>slash_serial = ''{
  "images": [
    {
      "appearances": [
        {
          "appearance": "luminosity",
          "value": "x/y"
        }
      ],
      "idiom": "universal",
      "scale": "1x",
      "filename": "y.png"
    }
  ],
  "info": {
    "author": "xcode",
    "version": 1
  }
}''\<close>


subsection \<open>A source directory with a file \<^verbatim>\<open>Contents.json\<close>\<close>

text \<open>
  The image set \<^verbatim>\<open>Assets.xcassets/B.imageset\<close> records the file \<^verbatim>\<open>Contents.json\<close>. The
  source directory has a file of that name, which is the manifest of an image set with
  one image without a file, and it has \<^verbatim>\<open>b.png\<close>.
\<close>

definition clash_image :: ImageSetImage where
  "clash_image = \<lparr>idiom = ''universal'', filename = Some ''Contents.json'', scale = ''1x'',
     appearances = None\<rparr>"

definition clash_contents :: ImageSetContents where
  "clash_contents = \<lparr>images = [clash_image], info = \<lparr>version = 1, author = ''xcode''\<rparr>\<rparr>"

definition clash_manifest :: string where
  \<open>clash_manifest = ''{
  "images" : [
    {
      "filename" : "Contents.json",
      "idiom" : "universal",
      "scale" : "1x"
    }
  ],
  "info" : {
    "author" : "xcode",
    "version" : 1
  }
}''\<close>

definition pool_contents :: ImageSetContents where
  "pool_contents = \<lparr>images = [icon_1x], info = \<lparr>version = 1, author = ''xcode''\<rparr>\<rparr>"

definition pool_contents_after :: ImageSetContents where
  "pool_contents_after = \<lparr>images = [icon_1x\<lparr>filename := Some ''b.png''\<rparr>],
     info = \<lparr>version = 1, author = ''xcode''\<rparr>\<rparr>"

definition pool_manifest :: string where
  \<open>pool_manifest = ''{
  "images" : [
    {
      "idiom" : "universal",
      "scale" : "1x"
    }
  ],
  "info" : {
    "author" : "xcode",
    "version" : 1
  }
}''\<close>

definition pool_serial :: string where
  \<open>pool_serial = ''{
  "images": [
    {
      "idiom": "universal",
      "scale": "1x",
      "filename": "b.png"
    }
  ],
  "info": {
    "author": "xcode",
    "version": 1
  }
}''\<close>


subsection \<open>The parameters of the examples\<close>

text \<open>\<^verbatim>\<open>JSON.parse\<close> and \<^verbatim>\<open>JSON.stringify\<close> are tabulated on the manifests above.\<close>

definition example_node :: node where
  "example_node =
     \<lparr>String_toLowerCase = ascii_toLowerCase,
      path_join = flat_join, path_basename = flat_basename, path_extname = flat_extname,
      JSON_parse = (\<lambda>s. if s = manifest_before then Some contents_before
                         else if s = manifest_after then Some contents_after
                         else if s = nested_manifest then Some nested_contents
                         else if s = slash_manifest then Some slash_contents
                         else if s = replace_first colon_delimiter padded_delimiter slash_serial
                           then Some slash_contents_after
                         else if s = clash_manifest then Some clash_contents
                         else if s = pool_manifest then Some pool_contents
                         else None),
      JSON_stringify = (\<lambda>c n. if c = contents_after \<and> n = 2 then manifest_serial
                             else if c = slash_contents_after \<and> n = 2 then slash_serial
                             else if c = pool_contents_after \<and> n = 2 then pool_serial
                             else [])\<rparr>"

text \<open>
  The file system of the app icon set before the first run. The copy of the second image
  in the image set is older and smaller than the exported file.
\<close>

definition example_world :: world where
  "example_world =
     \<lparr>files = [''Assets.xcassets/AppIcon.appiconset/Contents.json'' \<mapsto> png manifest_before 500,
               ''Assets.xcassets/AppIcon.appiconset/appicon@2x.png'' \<mapsto> png ''OLD2X'' 1000,
               ''Export/appicon.png'' \<mapsto> png ''ICON-1X'' (20004 / 10),
               ''Export/appicon@2x.png'' \<mapsto> png ''ICON-2X'' (20004 / 10)],
      calls = [], clock = 5000\<rparr>"

text \<open>
  The same, but the copy in the image set has the size of the exported file and a time
  that rounds to the same millisecond, with other bytes.
\<close>

definition lookalike_world :: world where
  "lookalike_world =
     \<lparr>files = [''Assets.xcassets/AppIcon.appiconset/Contents.json'' \<mapsto> png manifest_before 500,
               ''Assets.xcassets/AppIcon.appiconset/appicon@2x.png''
                  \<mapsto> png ''ICON+2X'' (20002 / 10),
               ''Export/appicon.png'' \<mapsto> png ''ICON-1X'' (20004 / 10),
               ''Export/appicon@2x.png'' \<mapsto> png ''ICON-2X'' (20004 / 10)],
      calls = [], clock = 5000\<rparr>"

subsection \<open>An image set with appearances\<close>

text \<open>
  The image set \<^verbatim>\<open>Assets.xcassets/App.Icon.imageset\<close>. Its image records a file that the
  export does not have; the export has the light variant of the image and another file.
\<close>

definition dark_2x :: ImageSetImage where
  "dark_2x = \<lparr>idiom = ''universal'', filename = Some ''old.png'', scale = ''2x'',
     appearances = Some [\<lparr>appearance = ''luminosity'', val = ''dark''\<rparr>,
                         \<lparr>appearance = ''contrast'', val = ''high''\<rparr>]\<rparr>"

definition no_appearance :: ImageSetImage where
  "no_appearance = \<lparr>idiom = ''universal'', filename = Some ''old.png'', scale = ''2x'',
     appearances = Some []\<rparr>"

definition themed_world :: world where
  "themed_world =
     \<lparr>files = [''Export/app-icon-light@2x.png'' \<mapsto> png ''LIGHT'' (9996 / 10),
               ''Export/icon.png'' \<mapsto> png ''ICON'' 1000,
               ''Assets.xcassets/App.Icon.imageset/old.png'' \<mapsto> png ''OLD'' 900],
      calls = [], clock = 5000\<rparr>"

subsection \<open>An image set that holds the source directory\<close>



section \<open>Lemmas\<close>

subsection \<open>The branches of the callback\<close>

lemma findImagePath_exists:
  "findImagePath N w imageSetPath imageSourcePath img = Inr (Some p) \<Longrightarrow> existsSync w p"
  by (auto simp add: findImagePath_def Let_def split: if_splits sum.splits)

lemma syncImage_not_found:
  assumes "findImagePath N w imageSetPath imageSourcePath img = Inr p" and "\<not> truthy p"
  shows "syncImage N imageSetPath imageSourcePath (w, result, needs) img
           = Inr ((w, (if filename img = None then result\<lparr>unassigned := True\<rparr>
                       else result\<lparr>missing := missing result @ [the (filename img)]\<rparr>),
                   needs), img)"
  using assms by (simp add: syncImage_def Let_def)

lemma syncImage_replace:
  assumes "findImagePath N w imageSetPath imageSourcePath img = Inr (Some new)"
    and "new \<noteq> []"
    and "\<not> truthy (oldImagePath_of N imageSetPath img)
         \<or> path_basename N (the (oldImagePath_of N imageSetPath img)) []
             \<noteq> path_basename N new []"
  shows "syncImage N imageSetPath imageSourcePath (w, result, needs) img
           = copy_and_push N imageSetPath new
               ((if truthy (oldImagePath_of N imageSetPath img)
                 then removeSync w (the (oldImagePath_of N imageSetPath img)) else w),
                result, True)
               (img\<lparr>filename := Some (path_basename N new [])\<rparr>)"
  using assms by (simp add: syncImage_def Let_def truthy_def)

lemma syncImage_same_name:
  assumes "findImagePath N w imageSetPath imageSourcePath img = Inr (Some new)"
    and "new \<noteq> []"
    and "truthy (oldImagePath_of N imageSetPath img)"
    and "path_basename N (the (oldImagePath_of N imageSetPath img)) [] = path_basename N new []"
  shows "syncImage N imageSetPath imageSourcePath (w, result, needs) img
           = (if same_stat (stat_of w (oldImagePath_of N imageSetPath img)) (stat_of w (Some new))
              then Inr ((w, result\<lparr>skipped := skipped result @ [the (filename img)]\<rparr>, needs), img)
              else copy_and_push N imageSetPath new (w, result, needs) img)"
  using assms by (simp add: syncImage_def Let_def truthy_def)

lemma copy_and_push_ok:
  assumes "files w new = Some src"
    and "new \<noteq> path_join N imageSetPath (path_basename N new [])"
  shows "copy_and_push N imageSetPath new (w, result, needs) img
           = Inr ((w\<lparr>files := (files w)(path_join N imageSetPath (path_basename N new [])
                                          \<mapsto> copied src),
                     calls := calls w
                        @ [CopySync new (path_join N imageSetPath (path_basename N new []))]\<rparr>,
                   result\<lparr>updated := updated result @ [the (filename img)]\<rparr>, needs), img)"
  using assms by (simp add: copy_and_push_def copySync_def)

lemma copy_and_push_Inr:
  assumes "copy_and_push N imageSetPath new (w, result, needs) img
             = Inr ((w', result', needs'), img')"
  obtains src where "files w new = Some src"
    and "new \<noteq> path_join N imageSetPath (path_basename N new [])"
    and "w' = w\<lparr>files := (files w)(path_join N imageSetPath (path_basename N new [])
                                          \<mapsto> copied src),
                     calls := calls w
                        @ [CopySync new (path_join N imageSetPath (path_basename N new []))]\<rparr>"
    and "result' = result\<lparr>updated := updated result @ [the (filename img)]\<rparr>"
    and "needs' = needs" and "img' = img"
proof (cases "files w new")
  case None
  then show thesis using assms by (simp add: copy_and_push_def copySync_def)
next
  case (Some src)
  show thesis
  proof (cases "new = path_join N imageSetPath (path_basename N new [])")
    case True
    then show thesis using assms Some by (simp add: copy_and_push_def copySync_def)
  next
    case False
    have "copy_and_push N imageSetPath new (w, result, needs) img
           = Inr ((w\<lparr>files := (files w)(path_join N imageSetPath (path_basename N new [])
                                          \<mapsto> copied src),
                     calls := calls w
                        @ [CopySync new (path_join N imageSetPath (path_basename N new []))]\<rparr>,
                   result\<lparr>updated := updated result @ [the (filename img)]\<rparr>, needs), img)"
      by (rule copy_and_push_ok [OF Some False])
    then have "Inr ((w', result', needs'), img')
           = (Inr ((w\<lparr>files := (files w)(path_join N imageSetPath (path_basename N new [])
                                          \<mapsto> copied src),
                     calls := calls w
                        @ [CopySync new (path_join N imageSetPath (path_basename N new []))]\<rparr>,
                   result\<lparr>updated := updated result @ [the (filename img)]\<rparr>, needs), img)
              :: error + (sync_state \<times> ImageSetImage))"
      by (rule trans [OF assms [symmetric]])
    then have "w' = w\<lparr>files := (files w)(path_join N imageSetPath (path_basename N new [])
                                          \<mapsto> copied src),
                     calls := calls w
                        @ [CopySync new (path_join N imageSetPath (path_basename N new []))]\<rparr>"
      "result' = result\<lparr>updated := updated result @ [the (filename img)]\<rparr>"
      "needs' = needs" "img' = img"
      by simp_all
    then show thesis using that Some False by blast
  qed
qed

lemma stat_of_Some: "p \<noteq> [] \<Longrightarrow> stat_of w (Some p) = statSync w p"
  by (simp add: stat_of_def truthy_def existsSync_def statSync_def)

lemma oldImagePath_of_Some:
  "filename img = Some f \<Longrightarrow> f \<noteq> []
     \<Longrightarrow> oldImagePath_of N imageSetPath img = Some (path_join N imageSetPath f)"
  by (simp add: oldImagePath_of_def truthy_def)

lemma same_stat_iff:
  "same_stat a b = (\<exists>oldStat newStat. a = Some oldStat \<and> b = Some newStat
       \<and> stat_size newStat = stat_size oldStat
       \<and> Math_round (stat_mtimeMs newStat) = Math_round (stat_mtimeMs oldStat))"
  by (cases a; cases b) (simp_all add: same_stat_def)



subsection \<open>The callback on plain file names\<close>



subsection \<open>A run on images that are up to date or unresolved\<close>












subsection \<open>What a run establishes\<close>











subsection \<open>The flag \<^verbatim>\<open>needsContentsUpdate\<close>\<close>

lemma syncImage_needs:
  assumes lawS: "plain_name_law N imageSetPath"
    and reg: "regular_files N w"
    and run: "syncImage N imageSetPath imageSourcePath (w, result, needs) img
                = Inr ((w', result', needs'), img')"
  shows "needs' = (needs \<or> filename img' \<noteq> filename img)"
    and "regular_files N w'"
    and "\<exists>ops. calls w' = calls w @ ops \<and> (\<forall>c\<in>set ops. \<forall>q s. c \<noteq> WriteFileSync q s)"
proof -
  obtain p where find: "findImagePath N w imageSetPath imageSourcePath img = Inr p"
    using run by (cases "findImagePath N w imageSetPath imageSourcePath img")
      (simp_all add: syncImage_def)
  have "needs' = (needs \<or> filename img' \<noteq> filename img) \<and> regular_files N w'
    \<and> (\<exists>ops. calls w' = calls w @ ops \<and> (\<forall>c\<in>set ops. \<forall>q s. c \<noteq> WriteFileSync q s))"
  proof (cases "truthy p")
    case False
    have "syncImage N imageSetPath imageSourcePath (w, result, needs) img
           = Inr ((w, (if filename img = None then result\<lparr>unassigned := True\<rparr>
                       else result\<lparr>missing := missing result @ [the (filename img)]\<rparr>),
                   needs), img)"
      by (rule syncImage_not_found [OF find False])
    with run have "w' = w" "img' = img" "needs' = needs" by auto
    then show ?thesis using reg by simp
  next
    case True
    then obtain new where p: "p = Some new" and new: "new \<noteq> []"
      by (cases p) (simp_all add: truthy_def)
    have found: "findImagePath N w imageSetPath imageSourcePath img = Inr (Some new)"
      using find p by simp
    have ex: "files w new \<noteq> None"
      using findImagePath_exists [OF found] by (simp add: existsSync_def)
    let ?b = "path_basename N new []"
    let ?dest = "path_join N imageSetPath ?b"
    let ?old = "oldImagePath_of N imageSetPath img"
    have pb: "plain ?b" using reg ex by (simp add: regular_files_def)
    have base_dest: "plain (path_basename N ?dest [])"
      and dest_ne: "?dest \<noteq> []"
      using lawS pb by (simp_all add: plain_name_law_def)
    show ?thesis
    proof (cases "\<not> truthy ?old \<or> path_basename N (the ?old) [] \<noteq> ?b")
      case True
      let ?w1 = "if truthy ?old then removeSync w (the ?old) else w"
      have step: "copy_and_push N imageSetPath new (?w1, result, True)
                    (img\<lparr>filename := Some ?b\<rparr>) = Inr ((w', result', needs'), img')"
        using syncImage_replace [OF found new True, of result needs] run by simp
      obtain src where res: "w' = ?w1\<lparr>files := (files ?w1)(?dest \<mapsto> copied src),
                     calls := calls ?w1 @ [CopySync new ?dest]\<rparr>"
        "result' = result\<lparr>updated := updated result @ [?b]\<rparr>"
        "needs' = True" "img' = img\<lparr>filename := Some ?b\<rparr>"
        using step by (rule copy_and_push_Inr) simp_all
      have changed: "filename img \<noteq> Some ?b"
      proof
        assume same: "filename img = Some ?b"
        have "?b \<noteq> []" using pb by (simp add: plain_def)
        then have "?old = Some ?dest"
          using same by (simp add: oldImagePath_of_Some)
        moreover have "path_basename N ?dest [] = ?b"
          using lawS pb by (simp add: plain_name_law_def)
        ultimately show False using True dest_ne by (simp add: truthy_def)
      qed
      have reg': "regular_files N w'"
        unfolding regular_files_def
      proof (intro allI impI)
        fix q assume q: "files w' q \<noteq> None"
        show "plain (path_basename N q [])"
        proof (cases "q = ?dest")
          case True
          then show ?thesis using base_dest by simp
        next
          case False
          then have "files ?w1 q \<noteq> None" using q res(1) by simp
          then have "files w q \<noteq> None"
            by (auto simp add: removeSync_def split: if_splits)
          then show ?thesis using reg by (simp add: regular_files_def)
        qed
      qed
      have "calls w' = calls w @ ((if truthy ?old then [RemoveSync (the ?old)] else [])
                                  @ [CopySync new ?dest])"
        using res(1) by (simp add: removeSync_def)
      moreover have "\<forall>c\<in>set ((if truthy ?old then [RemoveSync (the ?old)] else [])
                                  @ [CopySync new ?dest]). \<forall>q s. c \<noteq> WriteFileSync q s"
        by simp
      ultimately have "\<exists>ops. calls w' = calls w @ ops
          \<and> (\<forall>c\<in>set ops. \<forall>q s. c \<noteq> WriteFileSync q s)" by blast
      then show ?thesis
        using res(3,4) changed reg' by simp
    next
      case False
      then have told: "truthy ?old" and same: "path_basename N (the ?old) [] = ?b"
        by simp_all
      note step = syncImage_same_name [OF found new told same, of result needs]
      show ?thesis
      proof (cases "same_stat (stat_of w ?old) (stat_of w (Some new))")
        case True
        with run step have "w' = w" "img' = img" "needs' = needs" by auto
        then show ?thesis using reg by simp
      next
        case False
        with run step have "copy_and_push N imageSetPath new (w, result, needs) img
            = Inr ((w', result', needs'), img')" by simp
        then obtain src where res: "w' = w\<lparr>files := (files w)(?dest \<mapsto> copied src),
                     calls := calls w @ [CopySync new ?dest]\<rparr>"
          "result' = result\<lparr>updated := updated result @ [the (filename img)]\<rparr>"
          "needs' = needs" "img' = img"
          by (rule copy_and_push_Inr) simp_all
        have reg': "regular_files N w'"
          unfolding regular_files_def
        proof (intro allI impI)
          fix q assume q: "files w' q \<noteq> None"
          show "plain (path_basename N q [])"
          proof (cases "q = ?dest")
            case True
            then show ?thesis using base_dest by simp
          next
            case False
            then have "files w q \<noteq> None" using q res(1) by simp
            then show ?thesis using reg by (simp add: regular_files_def)
          qed
        qed
        have "calls w' = calls w @ [CopySync new ?dest]"
          "\<forall>c\<in>set [CopySync new ?dest]. \<forall>q s. c \<noteq> WriteFileSync q s"
          using res(1) by simp_all
        then have "\<exists>ops. calls w' = calls w @ ops
          \<and> (\<forall>c\<in>set ops. \<forall>q s. c \<noteq> WriteFileSync q s)" by blast
        then show ?thesis using res(3,4) reg' by simp
      qed
    qed
  qed
  then show "needs' = (needs \<or> filename img' \<noteq> filename img)"
    and "regular_files N w'"
    and "\<exists>ops. calls w' = calls w @ ops \<and> (\<forall>c\<in>set ops. \<forall>q s. c \<noteq> WriteFileSync q s)"
    by simp_all
qed

lemma forEach_image_needs:
  assumes lawS: "plain_name_law N imageSetPath"
  shows "regular_files N w
     \<Longrightarrow> forEach_image N imageSetPath imageSourcePath (w, result, needs) imgs
           = Inr ((w', result', needs'), imgs')
     \<Longrightarrow> needs' = (needs \<or> map filename imgs' \<noteq> map filename imgs)
         \<and> length imgs' = length imgs
         \<and> (\<exists>ops. calls w' = calls w @ ops \<and> (\<forall>c\<in>set ops. \<forall>q s. c \<noteq> WriteFileSync q s))"
proof (induction imgs arbitrary: w result needs imgs')
  case Nil
  then show ?case by simp
next
  case (Cons img imgs)
  obtain w1 r1 b1 img1 where
    step: "syncImage N imageSetPath imageSourcePath (w, result, needs) img
             = Inr ((w1, r1, b1), img1)"
    using Cons.prems(2)
    by (cases "syncImage N imageSetPath imageSourcePath (w, result, needs) img") auto
  obtain imgs1 where
    loop: "forEach_image N imageSetPath imageSourcePath (w1, r1, b1) imgs
             = Inr ((w', result', needs'), imgs1)"
    and imgs': "imgs' = img1 # imgs1"
    using Cons.prems(2) step
    by (cases "forEach_image N imageSetPath imageSourcePath (w1, r1, b1) imgs") auto
  note one = syncImage_needs [OF lawS Cons.prems(1) step]
  obtain ops1 where ops1: "calls w1 = calls w @ ops1"
      "\<forall>c\<in>set ops1. \<forall>q s. c \<noteq> WriteFileSync q s" using one(3) by blast
  note IH = Cons.IH [OF one(2) loop]
  then obtain ops2 where ops2: "calls w' = calls w1 @ ops2"
      "\<forall>c\<in>set ops2. \<forall>q s. c \<noteq> WriteFileSync q s" by blast
  have "calls w' = calls w @ (ops1 @ ops2)"
    "\<forall>c\<in>set (ops1 @ ops2). \<forall>q s. c \<noteq> WriteFileSync q s"
    using ops1 ops2 by auto
  then have "\<exists>ops. calls w' = calls w @ ops \<and> (\<forall>c\<in>set ops. \<forall>q s. c \<noteq> WriteFileSync q s)"
    by blast
  then show ?case
    using one(1) IH imgs' by auto
qed

subsection \<open>The parameters of the examples, and \<open>replace_first\<close>\<close>

lemma last_segment_append:
  assumes "CHR ''/'' \<notin> set n"
  shows "last_segment (dir @ ''/'' @ n) = n"
proof -
  have "takeWhile (\<lambda>c. c \<noteq> CHR ''/'') (rev n @ CHR ''/'' # rev dir) = rev n"
    using assms by (subst takeWhile_append2) auto
  then show ?thesis by (simp add: last_segment_def)
qed

lemma example_law: "plain_name_law example_node dir"
  using last_segment_append [of _ dir]
  by (simp add: plain_name_law_def example_node_def flat_join_def flat_basename_def plain_def)



lemma replace_first_leftmost:
  assumes "pat \<noteq> []"
  shows "(\<forall>k<length pre. \<not> prefix pat (drop k (pre @ pat @ post)))
     \<Longrightarrow> replace_first pat rep (pre @ pat @ post) = pre @ rep @ post"
proof (induction pre)
  case Nil
  obtain c cs where s: "pat @ post = c # cs"
    using assms by (cases "pat @ post") auto
  have "prefix pat (c # cs)" unfolding s [symmetric] by simp
  then have "replace_first pat rep (c # cs) = rep @ drop (length pat) (c # cs)" by simp
  then show ?case unfolding s [symmetric] by simp
next
  case (Cons a pre)
  have "\<not> prefix pat (a # pre @ pat @ post)"
    using Cons.prems by force
  moreover have "\<forall>k<length pre. \<not> prefix pat (drop k (pre @ pat @ post))"
    using Cons.prems by force
  ultimately show ?case using Cons.IH by simp
qed

lemma replace_first_absent:
  assumes "pat \<noteq> []"
  shows "(\<forall>k<length s. \<not> prefix pat (drop k s)) \<Longrightarrow> replace_first pat rep s = s"
proof (induction s)
  case Nil
  then show ?case using assms by simp
next
  case (Cons a s)
  have "\<not> prefix pat (a # s)"
    using Cons.prems by force
  moreover have "\<forall>k<length s. \<not> prefix pat (drop k s)"
    using Cons.prems by force
  ultimately show ?case using Cons.IH by simp
qed

section \<open>The locator\<close>

text \<open>
  C8. The scale suffix is empty for the scale \<^verbatim>\<open>1x\<close> and \<^verbatim>\<open>@\<close> followed by the scale
  otherwise. The appearance suffix is empty when no appearances are recorded; when the
  list has a first element, it is \<^verbatim>\<open>-\<close> followed by the value of that element, whatever
  follows it in the list.
\<close>

theorem derived_suffixes:
  "(scale img = ''1x'' \<longrightarrow> scale_suffix img = [])
   \<and> (scale img \<noteq> ''1x'' \<longrightarrow> scale_suffix img = ''@'' @ scale img)
   \<and> (appearances img = None \<longrightarrow> appearance_suffix img = Inr [])
   \<and> (\<forall>a rest. appearances img = Some (a # rest)
         \<longrightarrow> appearance_suffix img = Inr (''-'' @ val a))"
  by (simp add: scale_suffix_def appearance_suffix_def)

theorem derived_suffixes_witness:
  "scale dark_2x \<noteq> ''1x'' \<and> scale_suffix dark_2x = ''@2x''
   \<and> length (the (appearances dark_2x)) = 2
   \<and> appearance_suffix dark_2x = Inr ''-dark''
   \<and> scale icon_1x = ''1x'' \<and> scale_suffix icon_1x = []
   \<and> appearances icon_1x = None \<and> appearance_suffix icon_1x = Inr []"
  using derived_suffixes [of dark_2x] derived_suffixes [of icon_1x]
  by (simp add: dark_2x_def icon_1x_def)

text \<open>
  C2. When the recorded file name is a non-empty string and the source directory has a
  file of that name, \<^verbatim>\<open>findImagePath\<close> returns the path of that file. No name is derived:
  the result does not depend on the appearances, the scale or the other files.
\<close>

theorem find_recorded:
  assumes "filename img = Some f" and "f \<noteq> []"
    and "existsSync w (path_join N imageSourcePath f)"
  shows "findImagePath N w imageSetPath imageSourcePath img
           = Inr (Some (path_join N imageSourcePath f))"
  using assms by (simp add: findImagePath_def truthy_def)

theorem find_recorded_witness:
  "existsSync themed_world ''Export/app-icon-light@2x.png''
   \<and> findImagePath example_node themed_world ''Assets.xcassets/App.Icon.imageset'' ''Export''
        (dark_2x\<lparr>filename := Some ''icon.png''\<rparr>)
       = Inr (Some ''Export/icon.png'')
   \<and> findImagePath example_node themed_world ''Assets.xcassets/App.Icon.imageset'' ''Export''
        (no_appearance\<lparr>filename := Some ''icon.png''\<rparr>)
       = Inr (Some ''Export/icon.png'')"
proof -
  have join: "path_join example_node ''Export'' ''icon.png'' = ''Export/icon.png''"
    by code_simp
  have ex: "existsSync themed_world (path_join example_node ''Export'' ''icon.png'')"
    by code_simp
  have light: "existsSync themed_world ''Export/app-icon-light@2x.png''"
    by code_simp
  have "filename (dark_2x\<lparr>filename := Some ''icon.png''\<rparr>) = Some ''icon.png''"
    and "filename (no_appearance\<lparr>filename := Some ''icon.png''\<rparr>) = Some ''icon.png''"
    and ne: "''icon.png'' \<noteq> []"
    by simp_all
  from find_recorded [OF this(1) ne ex] find_recorded [OF this(2) ne ex] light
  show ?thesis unfolding join by simp
qed

text \<open>
  C1. When the recorded file name is absent, empty or names no file of the source
  directory, and the appearance suffix is defined, \<^verbatim>\<open>findImagePath\<close> derives a base name
  from the folder name of the image set: the base name without the extension, every dot
  replaced by a hyphen, and \<^verbatim>\<open>toLowerCase\<close> of the result, whatever its characters are. It
  returns the path of
  \<^verbatim>\<open><base><appearance><scale>.png\<close> in the source directory if that file exists, else the
  path of \<^verbatim>\<open><base>-light<scale>.png\<close> if that exists, else nothing. A recorded file name
  that no longer resolves takes this path too.
\<close>

theorem find_derived:
  assumes "\<not> (truthy (filename img)
               \<and> existsSync w (path_join N imageSourcePath (the (filename img))))"
    and "appearance_suffix img = Inr app"
  shows "findImagePath N w imageSetPath imageSourcePath img =
           Inr (let base = String_toLowerCase N (replace_dots
                             (path_basename N imageSetPath (path_extname N imageSetPath)));
                    explicit = path_join N imageSourcePath
                                 (base @ app @ scale_suffix img @ ''.png'');
                    light = path_join N imageSourcePath
                              (base @ ''-light'' @ scale_suffix img @ ''.png'')
                in if existsSync w explicit then Some explicit
                   else if existsSync w light then Some light
                   else None)"
  using assms by (auto simp add: findImagePath_def base_filename_def Let_def)

theorem find_derived_witness:
  "filename dark_2x = Some ''old.png''
   \<and> \<not> existsSync themed_world (path_join example_node ''Export'' ''old.png'')
   \<and> appearance_suffix dark_2x = Inr ''-dark''
   \<and> String_toLowerCase example_node
         (replace_dots (path_basename example_node ''Assets.xcassets/App.Icon.imageset''
            (path_extname example_node ''Assets.xcassets/App.Icon.imageset''))) = ''app-icon''
   \<and> findImagePath example_node themed_world ''Assets.xcassets/App.Icon.imageset'' ''Export''
        dark_2x
       = Inr (Some ''Export/app-icon-light@2x.png'')"
proof -
  have stale: "\<not> (truthy (filename dark_2x)
      \<and> existsSync themed_world (path_join example_node ''Export'' (the (filename dark_2x))))"
    by code_simp
  have app: "appearance_suffix dark_2x = Inr ''-dark''"
    by code_simp
  have base: "String_toLowerCase example_node (replace_dots
      (path_basename example_node ''Assets.xcassets/App.Icon.imageset''
         (path_extname example_node ''Assets.xcassets/App.Icon.imageset''))) = ''app-icon''"
    by code_simp
  have explicit: "\<not> existsSync themed_world
      (path_join example_node ''Export'' (''app-icon'' @ ''-dark'' @ scale_suffix dark_2x @ ''.png''))"
    by code_simp
  have light: "existsSync themed_world
      (path_join example_node ''Export'' (''app-icon'' @ ''-light'' @ scale_suffix dark_2x @ ''.png''))"
    by code_simp
  have path: "path_join example_node ''Export''
      (''app-icon'' @ ''-light'' @ scale_suffix dark_2x @ ''.png'') = ''Export/app-icon-light@2x.png''"
    by code_simp
  have "findImagePath example_node themed_world ''Assets.xcassets/App.Icon.imageset'' ''Export''
        dark_2x = Inr (Some ''Export/app-icon-light@2x.png'')"
    using find_derived [OF stale app, of "''Assets.xcassets/App.Icon.imageset''"]
    unfolding base Let_def using explicit light path by simp
  moreover have "filename dark_2x = Some ''old.png''" by (simp add: dark_2x_def)
  moreover have "\<not> existsSync themed_world (path_join example_node ''Export'' ''old.png'')"
    by code_simp
  ultimately show ?thesis using app base by simp
qed

text \<open>
  C10. \<^verbatim>\<open>findImagePath\<close> returns a value whenever the appearances are absent or a
  non-empty list. When they are the empty list and the recorded file name does not
  resolve in the source directory, reading the value of the first appearance throws.
\<close>

theorem empty_appearances_throw:
  "(appearances img \<noteq> Some []
      \<longrightarrow> (\<exists>p. findImagePath N w imageSetPath imageSourcePath img = Inr p))
   \<and> (appearances img = Some []
        \<and> \<not> (truthy (filename img)
              \<and> existsSync w (path_join N imageSourcePath (the (filename img))))
      \<longrightarrow> findImagePath N w imageSetPath imageSourcePath img = Inl TypeError)"
  by (cases "appearances img"; cases "the (appearances img)")
    (auto simp add: findImagePath_def appearance_suffix_def Let_def)

theorem empty_appearances_throw_witness:
  "appearances no_appearance = Some []
   \<and> \<not> existsSync themed_world (path_join example_node ''Export'' (the (filename no_appearance)))
   \<and> findImagePath example_node themed_world ''Assets.xcassets/App.Icon.imageset'' ''Export''
        no_appearance = Inl TypeError
   \<and> appearances dark_2x \<noteq> Some []
   \<and> (\<exists>p. findImagePath example_node themed_world ''Assets.xcassets/App.Icon.imageset''
             ''Export'' dark_2x = Inr p)"
proof -
  have a: "appearances no_appearance = Some []" by (simp add: no_appearance_def)
  have b: "\<not> existsSync themed_world
      (path_join example_node ''Export'' (the (filename no_appearance)))"
    by code_simp
  have c: "appearances dark_2x \<noteq> Some []" by (simp add: dark_2x_def)
  show ?thesis
    using empty_appearances_throw [of no_appearance example_node themed_world
        "''Assets.xcassets/App.Icon.imageset''" "''Export''"]
      empty_appearances_throw [of dark_2x example_node themed_world
        "''Assets.xcassets/App.Icon.imageset''" "''Export''"]
      a b c by simp
qed

section \<open>The callback of the reconciler\<close>

text \<open>
  C3. When \<^verbatim>\<open>findImagePath\<close> finds nothing, the callback sets \<^verbatim>\<open>unassigned\<close> if the image
  has no recorded file name and appends the recorded name to \<^verbatim>\<open>missing\<close> otherwise. The
  file system, the image and \<^verbatim>\<open>needsContentsUpdate\<close> stay as they are, no exception is
  raised, and the loop goes on with the next image.
\<close>

theorem not_found_classified:
  assumes "findImagePath N w imageSetPath imageSourcePath img = Inr p" and "\<not> truthy p"
  shows "syncImage N imageSetPath imageSourcePath (w, result, needs) img
           = Inr ((w, (if filename img = None then result\<lparr>unassigned := True\<rparr>
                       else result\<lparr>missing := missing result @ [the (filename img)]\<rparr>),
                   needs), img)
         \<and> forEach_image N imageSetPath imageSourcePath (w, result, needs) (img # imgs)
           = (case forEach_image N imageSetPath imageSourcePath
                     (w, (if filename img = None then result\<lparr>unassigned := True\<rparr>
                          else result\<lparr>missing := missing result @ [the (filename img)]\<rparr>),
                      needs) imgs of
                Inl e \<Rightarrow> Inl e
              | Inr (st, imgs') \<Rightarrow> Inr (st, img # imgs'))"
  by (simp add: syncImage_not_found [OF assms])

theorem not_found_classified_witness:
  "findImagePath example_node example_world ''Assets.xcassets/AppIcon.appiconset'' ''Export''
     icon_3x = Inr None
   \<and> syncImage example_node ''Assets.xcassets/AppIcon.appiconset'' ''Export''
        (example_world, new_ImageSetSyncResult, False) icon_3x
       = Inr ((example_world, new_ImageSetSyncResult\<lparr>missing := [''gone.png'']\<rparr>, False), icon_3x)
   \<and> findImagePath example_node example_world ''Assets.xcassets/AppIcon.appiconset'' ''Export''
        (icon_3x\<lparr>filename := None\<rparr>) = Inr None
   \<and> syncImage example_node ''Assets.xcassets/AppIcon.appiconset'' ''Export''
        (example_world, new_ImageSetSyncResult, False) (icon_3x\<lparr>filename := None\<rparr>)
       = Inr ((example_world, new_ImageSetSyncResult\<lparr>unassigned := True\<rparr>, False),
              icon_3x\<lparr>filename := None\<rparr>)"
proof -
  have none: "findImagePath example_node example_world ''Assets.xcassets/AppIcon.appiconset''
      ''Export'' icon_3x = Inr None"
    by code_simp
  have none': "findImagePath example_node example_world ''Assets.xcassets/AppIcon.appiconset''
      ''Export'' (icon_3x\<lparr>filename := None\<rparr>) = Inr None"
    by code_simp
  have falsy: "\<not> truthy None" by (simp add: truthy_def)
  have name: "filename icon_3x = Some ''gone.png''" by (simp add: icon_3x_def)
  show ?thesis
    using not_found_classified [OF none falsy, of new_ImageSetSyncResult False "[]"]
      not_found_classified [OF none' falsy, of new_ImageSetSyncResult False "[]"]
      none none' name
    by (simp add: new_ImageSetSyncResult_def)
qed

text \<open>
  C4. When \<^verbatim>\<open>findImagePath\<close> finds a file whose base name is the base name of the old
  path, and the image set is not the source directory: if the old and the new file both
  exist with the same size and the same modification time rounded to a millisecond, the
  recorded name goes to \<^verbatim>\<open>skipped\<close> and the file system stays as it is, whatever the bytes
  of the two files; otherwise the new file is copied into the image set under its base name
  and the recorded name goes to \<^verbatim>\<open>updated\<close>. The image keeps its file name in both cases.
\<close>

theorem same_name_skipped_or_updated:
  assumes found: "findImagePath N w imageSetPath imageSourcePath img = Inr (Some new)"
    and new: "new \<noteq> []"
    and recorded: "filename img = Some f" "f \<noteq> []" "path_join N imageSetPath f \<noteq> []"
    and same: "path_basename N (path_join N imageSetPath f) [] = path_basename N new []"
    and dest: "new \<noteq> path_join N imageSetPath (path_basename N new [])"
  shows "syncImage N imageSetPath imageSourcePath (w, result, needs) img =
           (if \<exists>oldStat newStat.
                  statSync w (path_join N imageSetPath f) = Some oldStat
                  \<and> statSync w new = Some newStat
                  \<and> stat_size newStat = stat_size oldStat
                  \<and> Math_round (stat_mtimeMs newStat) = Math_round (stat_mtimeMs oldStat)
            then Inr ((w, result\<lparr>skipped := skipped result @ [f]\<rparr>, needs), img)
            else Inr ((w\<lparr>files := (files w)(path_join N imageSetPath (path_basename N new [])
                                                 \<mapsto> copied (the (files w new))),
                         calls := calls w
                            @ [CopySync new (path_join N imageSetPath (path_basename N new []))]\<rparr>,
                       result\<lparr>updated := updated result @ [f]\<rparr>, needs), img))"
proof -
  obtain src where ex: "files w new = Some src"
    using findImagePath_exists [OF found] by (auto simp add: existsSync_def)
  have old: "oldImagePath_of N imageSetPath img = Some (path_join N imageSetPath f)"
    using recorded by (simp add: oldImagePath_of_Some)
  have step: "syncImage N imageSetPath imageSourcePath (w, result, needs) img
           = (if same_stat (statSync w (path_join N imageSetPath f)) (statSync w new)
              then Inr ((w, result\<lparr>skipped := skipped result @ [f]\<rparr>, needs), img)
              else copy_and_push N imageSetPath new (w, result, needs) img)"
    using syncImage_same_name [OF found new, of result needs] old recorded same new
    by (simp add: truthy_def stat_of_Some)
  have copy: "copy_and_push N imageSetPath new (w, result, needs) img
      = Inr ((w\<lparr>files := (files w)(path_join N imageSetPath (path_basename N new [])
                                                 \<mapsto> copied (the (files w new))),
                         calls := calls w
                            @ [CopySync new (path_join N imageSetPath (path_basename N new []))]\<rparr>,
                       result\<lparr>updated := updated result @ [f]\<rparr>, needs), img)"
    using copy_and_push_ok [OF ex dest, of result needs img] recorded ex by simp
  have cond: "(\<exists>oldStat newStat.
                  statSync w (path_join N imageSetPath f) = Some oldStat
                  \<and> statSync w new = Some newStat
                  \<and> stat_size newStat = stat_size oldStat
                  \<and> Math_round (stat_mtimeMs newStat) = Math_round (stat_mtimeMs oldStat))
      = same_stat (statSync w (path_join N imageSetPath f)) (statSync w new)"
    by (simp only: same_stat_iff)
  show ?thesis
    unfolding cond step copy by simp
qed

theorem same_name_skipped_or_updated_witness:
  "file_content (the (files lookalike_world ''Assets.xcassets/AppIcon.appiconset/appicon@2x.png''))
     \<noteq> file_content (the (files lookalike_world ''Export/appicon@2x.png''))
   \<and> syncImage example_node ''Assets.xcassets/AppIcon.appiconset'' ''Export''
        (lookalike_world, new_ImageSetSyncResult, False) icon_2x
       = Inr ((lookalike_world, new_ImageSetSyncResult\<lparr>skipped := [''appicon@2x.png'']\<rparr>, False),
              icon_2x)
   \<and> syncImage example_node ''Assets.xcassets/AppIcon.appiconset'' ''Export''
        (example_world, new_ImageSetSyncResult, False) icon_2x
       = Inr ((example_world
                 \<lparr>files := (files example_world)
                     (''Assets.xcassets/AppIcon.appiconset/appicon@2x.png''
                        \<mapsto> copied (the (files example_world ''Export/appicon@2x.png''))),
                   calls := [CopySync ''Export/appicon@2x.png''
                               ''Assets.xcassets/AppIcon.appiconset/appicon@2x.png'']\<rparr>,
               new_ImageSetSyncResult\<lparr>updated := [''appicon@2x.png'']\<rparr>, False),
              icon_2x)"
proof -
  let ?set = "''Assets.xcassets/AppIcon.appiconset''"
  let ?new = "''Export/appicon@2x.png''"
  let ?old = "''Assets.xcassets/AppIcon.appiconset/appicon@2x.png''"
  have found1: "findImagePath example_node lookalike_world ?set ''Export'' icon_2x
      = Inr (Some ?new)"
    by code_simp
  have found2: "findImagePath example_node example_world ?set ''Export'' icon_2x
      = Inr (Some ?new)"
    by code_simp
  have new: "?new \<noteq> []" by simp
  have recorded: "filename icon_2x = Some ''appicon@2x.png''" "''appicon@2x.png'' \<noteq> []"
    "path_join example_node ?set ''appicon@2x.png'' \<noteq> []"
    by (simp_all add: icon_2x_def example_node_def flat_join_def)
  have old: "path_join example_node ?set ''appicon@2x.png'' = ?old"
    by code_simp
  have base: "path_basename example_node ?new [] = ''appicon@2x.png''"
    by code_simp
  have same: "path_basename example_node (path_join example_node ?set ''appicon@2x.png'') []
      = path_basename example_node ?new []"
    by code_simp
  have dest: "?new \<noteq> path_join example_node ?set (path_basename example_node ?new [])"
    by code_simp
  have stats1: "statSync lookalike_world ?old = Some \<lparr>stat_size = 7, stat_mtimeMs = 20002 / 10\<rparr>"
    "statSync lookalike_world ?new = Some \<lparr>stat_size = 7, stat_mtimeMs = 20004 / 10\<rparr>"
    by code_simp+
  have stats2: "statSync example_world ?old = Some \<lparr>stat_size = 5, stat_mtimeMs = 1000\<rparr>"
    "statSync example_world ?new = Some \<lparr>stat_size = 7, stat_mtimeMs = 20004 / 10\<rparr>"
    by code_simp+
  have round: "Math_round (20004 / 10) = Math_round (20002 / 10)"
    by code_simp
  have bytes: "file_content (the (files lookalike_world ?old))
     \<noteq> file_content (the (files lookalike_world ?new))"
    by code_simp
  have skip: "syncImage example_node ?set ''Export''
        (lookalike_world, new_ImageSetSyncResult, False) icon_2x
       = Inr ((lookalike_world, new_ImageSetSyncResult\<lparr>skipped := [''appicon@2x.png'']\<rparr>, False),
              icon_2x)"
    using same_name_skipped_or_updated [OF found1 new recorded same dest,
        of new_ImageSetSyncResult False]
    unfolding old stats1 using round by (simp add: new_ImageSetSyncResult_def)
  have copy: "syncImage example_node ?set ''Export''
        (example_world, new_ImageSetSyncResult, False) icon_2x
       = Inr ((example_world
                 \<lparr>files := (files example_world)
                     (?old \<mapsto> copied (the (files example_world ?new))),
                   calls := [CopySync ?new ?old]\<rparr>,
               new_ImageSetSyncResult\<lparr>updated := [''appicon@2x.png'']\<rparr>, False),
              icon_2x)"
    using same_name_skipped_or_updated [OF found2 new recorded same dest,
        of new_ImageSetSyncResult False]
    unfolding old base stats2
    by (simp add: new_ImageSetSyncResult_def example_world_def)
  show ?thesis using bytes skip copy by simp
qed




section \<open>The manifest\<close>

text \<open>The first run of the example, evaluated.\<close>

lemma example_loop:
  "map_sum id (\<lambda>((w, r, b), imgs). (r, b, imgs))
         (forEach_image example_node ''Assets.xcassets/AppIcon.appiconset'' ''Export''
            (example_world, new_ImageSetSyncResult, False) (images contents_before))
   = Inr (\<lparr>unassigned = False, updated = [''appicon.png'', ''appicon@2x.png''],
            missing = [''gone.png''], skipped = []\<rparr>, True, images contents_after)"
  by code_simp

lemma example_loop_world:
  "\<exists>w'. forEach_image example_node ''Assets.xcassets/AppIcon.appiconset'' ''Export''
            (example_world, new_ImageSetSyncResult, False) (images contents_before)
    = Inr ((w', \<lparr>unassigned = False, updated = [''appicon.png'', ''appicon@2x.png''],
                  missing = [''gone.png''], skipped = []\<rparr>, True), images contents_after)"
  using example_loop
  by (cases "forEach_image example_node ''Assets.xcassets/AppIcon.appiconset'' ''Export''
            (example_world, new_ImageSetSyncResult, False) (images contents_before)") auto

lemma example_read:
  "readFileSync example_world
     (path_join example_node ''Assets.xcassets/AppIcon.appiconset'' ''Contents.json'')
   = Inr manifest_before"
  by code_simp

lemma example_parse: "JSON_parse example_node manifest_before = Some contents_before"
  by code_simp

lemma example_written:
  "replace_first colon_delimiter padded_delimiter
     (JSON_stringify example_node (contents_before\<lparr>images := images contents_after\<rparr>) 2)
   = manifest_after"
  by code_simp

lemma example_regular: "regular_files example_node example_world"
proof -
  have keys: "p \<in> set [''Assets.xcassets/AppIcon.appiconset/Contents.json'',
                        ''Assets.xcassets/AppIcon.appiconset/appicon@2x.png'',
                        ''Export/appicon.png'', ''Export/appicon@2x.png'']"
    if "files example_world p \<noteq> None" for p
    using that by (simp add: example_world_def split: if_splits)
  have "list_all (\<lambda>p. plain (path_basename example_node p []))
          [''Assets.xcassets/AppIcon.appiconset/Contents.json'',
           ''Assets.xcassets/AppIcon.appiconset/appicon@2x.png'',
           ''Export/appicon.png'', ''Export/appicon@2x.png'']"
    by code_simp
  then show ?thesis
    unfolding regular_files_def list_all_iff using keys by blast
qed

text \<open>
  C6. Let the file names of the file system be plain and let the image set folder obey
  the law of plain names. Then \<^verbatim>\<open>syncImageSet\<close> writes the manifest if and only if the
  \<^verbatim>\<open>filename\<close> of at least one image has another value after the loop than before it, and
  the loop itself writes no file.
\<close>

theorem manifest_written_iff_filename_changed:
  assumes lawS: "plain_name_law N imageSetPath"
    and reg: "regular_files N w"
    and read: "readFileSync w (path_join N imageSetPath ''Contents.json'') = Inr text"
    and parse: "JSON_parse N text = Some contents"
    and loop: "forEach_image N imageSetPath imageSourcePath
                 (w, new_ImageSetSyncResult, False) (images contents)
               = Inr ((w', result, needs), imgs')"
  shows "syncImageSet N w imageSetPath imageSourcePath
           = Inr (if \<exists>i<length (images contents).
                        filename (imgs' ! i) \<noteq> filename (images contents ! i)
                  then writeFileSync w' (path_join N imageSetPath ''Contents.json'')
                         (replace_first colon_delimiter padded_delimiter
                            (JSON_stringify N (contents\<lparr>images := imgs'\<rparr>) 2))
                  else w',
                  result)
         \<and> length imgs' = length (images contents)
         \<and> (\<exists>ops. calls w' = calls w @ ops
                \<and> (\<forall>c\<in>set ops. \<forall>q s. c \<noteq> WriteFileSync q s))"
proof -
  note n = forEach_image_needs [OF lawS reg loop]
  then have len: "length imgs' = length (images contents)" by simp
  have "needs = (map filename imgs' \<noteq> map filename (images contents))"
    using n by simp
  also have "\<dots> = (\<exists>i<length (images contents).
                        filename (imgs' ! i) \<noteq> filename (images contents ! i))"
    using len by (auto simp add: list_eq_iff_nth_eq)
  finally have needs: "needs = (\<exists>i<length (images contents).
                        filename (imgs' ! i) \<noteq> filename (images contents ! i))" .
  have "syncImageSet N w imageSetPath imageSourcePath
           = Inr (if needs
                  then writeFileSync w' (path_join N imageSetPath ''Contents.json'')
                         (replace_first colon_delimiter padded_delimiter
                            (JSON_stringify N (contents\<lparr>images := imgs'\<rparr>) 2))
                  else w',
                  result)"
    using read parse loop by (simp add: syncImageSet_def)
  then show ?thesis
    using needs n by simp
qed

theorem manifest_written_iff_filename_changed_witness:
  "regular_files example_node example_world
   \<and> (\<exists>w' result.
        forEach_image example_node ''Assets.xcassets/AppIcon.appiconset'' ''Export''
            (example_world, new_ImageSetSyncResult, False) (images contents_before)
          = Inr ((w', result, True), images contents_after)
        \<and> filename (images contents_after ! 0) \<noteq> filename (images contents_before ! 0)
        \<and> syncImageSet example_node example_world ''Assets.xcassets/AppIcon.appiconset'' ''Export''
            = Inr (writeFileSync w' ''Assets.xcassets/AppIcon.appiconset/Contents.json''
                     manifest_after, result))"
proof -
  let ?set = "''Assets.xcassets/AppIcon.appiconset''"
  obtain w' where loop:
    "forEach_image example_node ?set ''Export''
        (example_world, new_ImageSetSyncResult, False) (images contents_before)
      = Inr ((w', \<lparr>unassigned = False, updated = [''appicon.png'', ''appicon@2x.png''],
                    missing = [''gone.png''], skipped = []\<rparr>, True), images contents_after)"
    using example_loop_world by blast
  have first: "filename (images contents_after ! 0) \<noteq> filename (images contents_before ! 0)"
    by code_simp
  have "0 < length (images contents_before)" by code_simp
  with first have changed: "\<exists>i<length (images contents_before).
      filename (images contents_after ! i) \<noteq> filename (images contents_before ! i)"
    by blast
  have cp: "path_join example_node ?set ''Contents.json''
      = ''Assets.xcassets/AppIcon.appiconset/Contents.json''"
    by code_simp
  have "syncImageSet example_node example_world ?set ''Export''
      = Inr (writeFileSync w' ''Assets.xcassets/AppIcon.appiconset/Contents.json'' manifest_after,
             \<lparr>unassigned = False, updated = [''appicon.png'', ''appicon@2x.png''],
               missing = [''gone.png''], skipped = []\<rparr>)"
    using manifest_written_iff_filename_changed
      [OF example_law example_regular example_read example_parse loop]
      changed
    unfolding example_written cp by simp
  then show ?thesis using example_regular loop first by blast
qed

text \<open>
  C9. When the manifest is rewritten, the text written is \<^verbatim>\<open>JSON.stringify(contents, null, 2)\<close>
  in which the leftmost occurrence of the three characters quote, colon, space has become
  quote, space, colon, space. What stands before and after that occurrence is kept, so
  every later occurrence is; a text without the three characters is written as it is.
\<close>

theorem manifest_rewrite_pads_first_colon:
  assumes read: "readFileSync w (path_join N imageSetPath ''Contents.json'') = Inr text"
    and parse: "JSON_parse N text = Some contents"
    and loop: "forEach_image N imageSetPath imageSourcePath
                 (w, new_ImageSetSyncResult, False) (images contents)
               = Inr ((w', result, True), imgs')"
    and serial: "serial = JSON_stringify N (contents\<lparr>images := imgs'\<rparr>) 2"
  shows "\<exists>written.
           syncImageSet N w imageSetPath imageSourcePath
             = Inr (writeFileSync w' (path_join N imageSetPath ''Contents.json'') written, result)
           \<and> ((\<forall>k<length serial. \<not> prefix colon_delimiter (drop k serial))
                \<longrightarrow> written = serial)
           \<and> (\<forall>pre post. serial = pre @ colon_delimiter @ post
                  \<and> (\<forall>k<length pre. \<not> prefix colon_delimiter (drop k serial))
                \<longrightarrow> written = pre @ padded_delimiter @ post)"
proof -
  let ?written = "replace_first colon_delimiter padded_delimiter serial"
  have ne: "colon_delimiter \<noteq> []" by (simp add: colon_delimiter_def)
  have "syncImageSet N w imageSetPath imageSourcePath
          = Inr (writeFileSync w' (path_join N imageSetPath ''Contents.json'') ?written, result)"
    using read parse loop serial by (simp add: syncImageSet_def)
  moreover have "(\<forall>k<length serial. \<not> prefix colon_delimiter (drop k serial))
                \<longrightarrow> ?written = serial"
    using replace_first_absent [OF ne] by blast
  moreover have "\<forall>pre post. serial = pre @ colon_delimiter @ post
                  \<and> (\<forall>k<length pre. \<not> prefix colon_delimiter (drop k serial))
                \<longrightarrow> ?written = pre @ padded_delimiter @ post"
    using replace_first_leftmost [OF ne] by blast
  ultimately show ?thesis by blast
qed

theorem manifest_rewrite_pads_first_colon_witness:
  "manifest_serial = take 11 manifest_serial @ colon_delimiter @ drop 14 manifest_serial
   \<and> list_all (\<lambda>k. \<not> prefix colon_delimiter (drop k manifest_serial)) [0..<11]
   \<and> prefix colon_delimiter (drop 35 manifest_after)
   \<and> take 11 manifest_serial @ padded_delimiter @ drop 14 manifest_serial = manifest_after
   \<and> (\<exists>w' result.
        syncImageSet example_node example_world ''Assets.xcassets/AppIcon.appiconset'' ''Export''
          = Inr (writeFileSync w'
                   (path_join example_node ''Assets.xcassets/AppIcon.appiconset'' ''Contents.json'')
                   manifest_after, result))"
proof -
  let ?set = "''Assets.xcassets/AppIcon.appiconset''"
  let ?pre = "take 11 manifest_serial"
  let ?post = "drop 14 manifest_serial"
  obtain w' where loop:
    "forEach_image example_node ?set ''Export''
        (example_world, new_ImageSetSyncResult, False) (images contents_before)
      = Inr ((w', \<lparr>unassigned = False, updated = [''appicon.png'', ''appicon@2x.png''],
                    missing = [''gone.png''], skipped = []\<rparr>, True), images contents_after)"
    using example_loop_world by blast
  have serial: "manifest_serial
      = JSON_stringify example_node (contents_before\<lparr>images := images contents_after\<rparr>) 2"
    by code_simp
  have split: "manifest_serial = ?pre @ colon_delimiter @ ?post"
    by code_simp
  have first: "list_all (\<lambda>k. \<not> prefix colon_delimiter (drop k manifest_serial)) [0..<11]"
    by code_simp
  have len: "length ?pre = 11" by code_simp
  have leftmost: "\<forall>k<length ?pre. \<not> prefix colon_delimiter (drop k manifest_serial)"
    using first unfolding len list_all_iff by simp
  have later: "prefix colon_delimiter (drop 35 manifest_after)"
    by code_simp
  have padded: "?pre @ padded_delimiter @ ?post = manifest_after"
    by code_simp
  obtain written where w:
    "syncImageSet example_node example_world ?set ''Export''
       = Inr (writeFileSync w' (path_join example_node ?set ''Contents.json'') written,
              \<lparr>unassigned = False, updated = [''appicon.png'', ''appicon@2x.png''],
                missing = [''gone.png''], skipped = []\<rparr>)"
    "\<forall>pre post. manifest_serial = pre @ colon_delimiter @ post
        \<and> (\<forall>k<length pre. \<not> prefix colon_delimiter (drop k manifest_serial))
      \<longrightarrow> written = pre @ padded_delimiter @ post"
    using manifest_rewrite_pads_first_colon [OF example_read example_parse loop serial]
    by blast
  have "written = ?pre @ padded_delimiter @ ?post"
    using w(2) split leftmost by blast
  then have "written = manifest_after" using padded by simp
  then show ?thesis using w(1) split first later padded by blast
qed

section \<open>Two runs in succession\<close>




end
